theory Spec2Isabelle
  imports Main "HOL-Library.AList"
begin

section \<open>The inventory ledger of \<open>inventory_system_fixed.py\<close>\<close>

text \<open>
  The module keeps one global dictionary \<open>stock_data\<close> from item names to quantities,
  changes it with \<open>add_item\<close> and \<open>remove_item\<close>, reads it with \<open>get_qty\<close> and
  \<open>check_low_items\<close>, and copies it to and from a JSON file with \<open>save_data\<close> and
  \<open>load_data\<close>. Every function reports through the \<open>logging\<close> module.

  The embedding passes the global state explicitly. Arguments are dynamically typed
  Python values, because \<open>add_item\<close> checks their types at run time; an exception that
  leaves a function is the \<open>Inl\<close> branch of its result.
\<close>

subsection \<open>Python values and exceptions\<close>

text \<open>
  The values a caller can pass: \<open>None\<close>, booleans, unbounded integers, strings and
  lists. Floating-point numbers and user-defined objects are outside the model.
\<close>

datatype pyval =
    VNone
  | VBool bool
  | VInt int
  | VStr string
  | VList "pyval list"

datatype pytype = NoneType | BoolT | IntT | StrT | ListT

fun type_of :: "pyval \<Rightarrow> pytype" where
  "type_of VNone = NoneType"
| "type_of (VBool b) = BoolT"
| "type_of (VInt n) = IntT"
| "type_of (VStr s) = StrT"
| "type_of (VList xs) = ListT"

text \<open>\<open>not item\<close> is true for \<open>None\<close>, \<open>False\<close>, \<open>0\<close>, the empty string and the empty list.\<close>

fun truthy :: "pyval \<Rightarrow> bool" where
  "truthy VNone = False"
| "truthy (VBool b) = b"
| "truthy (VInt n) = (n \<noteq> 0)"
| "truthy (VStr s) = (s \<noteq> [])"
| "truthy (VList xs) = (xs \<noteq> [])"

text \<open>\<open>isinstance(item, str)\<close>.\<close>

fun isinstance_str :: "pyval \<Rightarrow> bool" where
  "isinstance_str (VStr s) = True"
| "isinstance_str v = False"

text \<open>
  \<open>isinstance(qty, int)\<close> together with the integer the value stands for in arithmetic
  and comparisons: \<open>bool\<close> is a subclass of \<open>int\<close>, with \<open>True\<close> being 1 and \<open>False\<close> 0.
\<close>

fun as_int :: "pyval \<Rightarrow> int option" where
  "as_int (VInt n) = Some n"
| "as_int (VBool b) = Some (if b then 1 else 0)"
| "as_int v = None"

definition isinstance_int :: "pyval \<Rightarrow> bool" where
  "isinstance_int v = (as_int v \<noteq> None)"

text \<open>Lists cannot be hashed, so using one as a dictionary key raises \<open>TypeError\<close>.\<close>

fun hashable :: "pyval \<Rightarrow> bool" where
  "hashable (VList xs) = False"
| "hashable v = True"

datatype exn =
    KeyError pyval
  | TypeError
  | ValueError
  | JSONDecodeError
  | UnicodeDecodeError
  | OSError
  | FileNotFoundError
  | PermissionError
  | IsADirectoryError

text \<open>
  \<open>except IOError\<close> catches \<open>OSError\<close> (of which \<open>IOError\<close> is an alias) and its
  subclasses.
\<close>

fun isinstance_OSError :: "exn \<Rightarrow> bool" where
  "isinstance_OSError OSError = True"
| "isinstance_OSError FileNotFoundError = True"
| "isinstance_OSError PermissionError = True"
| "isinstance_OSError IsADirectoryError = True"
| "isinstance_OSError e = False"

subsection \<open>The logging channel\<close>

text \<open>
  A log record is a level and a message. The model keeps the arguments of each f-string
  of the source instead of the rendered text.
\<close>

datatype level = INFO | WARNING | ERROR

type_synonym timestamp = nat

datatype message =
    InvalidItemType pytype
  | InvalidQuantityType pytype
  | Added timestamp pyval string
  | RemovedAll string
  | NotFound pyval
  | LoadedFrom string
  | FileMissing string
  | InvalidJSON string
  | SavedTo string
  | ErrorSaving string exn

subsection \<open>The dictionary and the file system\<close>

text \<open>
  \<open>stock_data\<close> is a dictionary with string keys and integer values: \<open>add_item\<close> stores
  nothing else, and the persisted format is an object from item names to integers. A
  Python dictionary iterates in insertion order, which \<open>check_low_items\<close> exposes, so
  the model is an association list: \<open>AList.update\<close> overwrites a key in place or appends
  a new one, \<open>AList.delete\<close> removes a key, \<open>map_of\<close> looks one up.
\<close>

type_synonym stock = "(string \<times> int) list"

text \<open>
  What a path names: nothing, a readable and writable file with its text, or something
  that makes \<open>open\<close> (or the transfer after it) raise the given exception.
\<close>

datatype 't node = Missing | Regular 't | Faulty exn

record 't world =
  stock_data :: stock
  log_records :: "(level \<times> message) list"
  files :: "string \<Rightarrow> 't node"

definition logging :: "level \<Rightarrow> message \<Rightarrow> 't world \<Rightarrow> 't world" where
  "logging lv m w = w\<lparr>log_records := log_records w @ [(lv, m)]\<rparr>"

text \<open>\<open>item in stock_data\<close>: hashing the key comes first.\<close>

definition contains :: "stock \<Rightarrow> pyval \<Rightarrow> exn + bool" where
  "contains s item =
     (if \<not> hashable item then Inl TypeError
      else case item of VStr k \<Rightarrow> Inr (map_of s k \<noteq> None) | _ \<Rightarrow> Inr False)"

subsection \<open>\<open>add_item\<close>\<close>

text \<open>
  The result is the world and the list \<open>logs\<close> as it stands at the end of the call: the
  caller's list, or a fresh one when \<open>logs\<close> is \<open>None\<close>. \<open>now\<close> is the value of
  \<open>datetime.now()\<close>. No path of \<open>add_item\<close> raises.
\<close>

definition add_item ::
  "timestamp \<Rightarrow> pyval \<Rightarrow> pyval \<Rightarrow> message list option \<Rightarrow> 't world \<Rightarrow> 't world \<times> message list"
where
  "add_item now item qty logs w =
     (let logs = (case logs of None \<Rightarrow> [] | Some l \<Rightarrow> l) in
      if \<not> truthy item then (w, logs)
      else if \<not> isinstance_str item then
        (logging ERROR (InvalidItemType (type_of item)) w, logs)
      else if \<not> isinstance_int qty then
        (logging ERROR (InvalidQuantityType (type_of qty)) w, logs)
      else
        (case (item, as_int qty) of
           (VStr k, Some q) \<Rightarrow>
             let s = stock_data w;
                 w1 = w\<lparr>stock_data :=
                        AList.update k ((case map_of s k of None \<Rightarrow> 0 | Some v \<Rightarrow> v) + q) s\<rparr>;
                 log_entry = Added now qty k
             in (logging INFO log_entry w1, logs @ [log_entry])
         | _ \<Rightarrow> (w, logs)))"

subsection \<open>\<open>remove_item\<close>\<close>

text \<open>
  The body of the \<open>try\<close> block. Subtracting anything but an integer from the stored
  integer raises \<open>TypeError\<close> before the dictionary is written.
\<close>

definition remove_item_try :: "pyval \<Rightarrow> pyval \<Rightarrow> 't world \<Rightarrow> exn + 't world" where
  "remove_item_try item qty w =
     (case contains (stock_data w) item of
        Inl e \<Rightarrow> Inl e
      | Inr False \<Rightarrow> Inl (KeyError item)
      | Inr True \<Rightarrow>
          (case item of
             VStr k \<Rightarrow>
               (case (map_of (stock_data w) k, as_int qty) of
                  (Some v, Some q) \<Rightarrow>
                    let w1 = w\<lparr>stock_data := AList.update k (v - q) (stock_data w)\<rparr> in
                    if v - q \<le> 0 then
                      Inr (logging INFO (RemovedAll k)
                             (w1\<lparr>stock_data := AList.delete k (stock_data w1)\<rparr>))
                    else Inr w1
                | _ \<Rightarrow> Inl TypeError)
           | _ \<Rightarrow> Inl TypeError))"

text \<open>The handler \<open>except KeyError as e: logging.error(str(e))\<close>; anything else propagates.\<close>

definition remove_item :: "pyval \<Rightarrow> pyval \<Rightarrow> 't world \<Rightarrow> exn + 't world" where
  "remove_item item qty w =
     (case remove_item_try item qty w of
        Inl (KeyError i) \<Rightarrow> Inr (logging ERROR (NotFound i) w)
      | r \<Rightarrow> r)"

subsection \<open>\<open>get_qty\<close> and \<open>check_low_items\<close>\<close>

definition get_qty :: "pyval \<Rightarrow> 't world \<Rightarrow> exn + int" where
  "get_qty item w =
     (if \<not> hashable item then Inl TypeError
      else case item of
             VStr k \<Rightarrow> Inr (case map_of (stock_data w) k of None \<Rightarrow> 0 | Some v \<Rightarrow> v)
           | _ \<Rightarrow> Inr 0)"

text \<open>\<open>quantity < threshold\<close> for an integer \<open>quantity\<close>.\<close>

definition int_lt :: "int \<Rightarrow> pyval \<Rightarrow> exn + bool" where
  "int_lt quantity threshold =
     (case as_int threshold of None \<Rightarrow> Inl TypeError | Some t \<Rightarrow> Inr (quantity < t))"

text \<open>The \<open>for\<close> loop of \<open>check_low_items\<close>, with \<open>result\<close> as the accumulator.\<close>

fun check_low_loop :: "pyval \<Rightarrow> stock \<Rightarrow> string list \<Rightarrow> exn + string list" where
  "check_low_loop threshold [] result = Inr result"
| "check_low_loop threshold ((item, quantity) # rest) result =
     (case int_lt quantity threshold of
        Inl e \<Rightarrow> Inl e
      | Inr b \<Rightarrow> check_low_loop threshold rest (if b then result @ [item] else result))"

definition check_low_items :: "pyval \<Rightarrow> 't world \<Rightarrow> exn + string list" where
  "check_low_items threshold w = check_low_loop threshold (stock_data w) []"

subsection \<open>\<open>load_data\<close> and \<open>save_data\<close>\<close>

text \<open>
  \<open>json.dump\<close> and \<open>json.load\<close> belong to the standard library; the model takes them as
  the parameters \<open>dumps\<close> (the text written for a dictionary) and \<open>loads\<close> (the
  dictionary parsed from a text, or the exception raised).
\<close>

definition open_read :: "'t world \<Rightarrow> string \<Rightarrow> exn + 't" where
  "open_read w file =
     (case files w file of
        Missing \<Rightarrow> Inl FileNotFoundError
      | Faulty e \<Rightarrow> Inl e
      | Regular t \<Rightarrow> Inr t)"

definition open_write :: "'t world \<Rightarrow> string \<Rightarrow> 't \<Rightarrow> exn + 't world" where
  "open_write w file t =
     (case files w file of
        Faulty e \<Rightarrow> Inl e
      | _ \<Rightarrow> Inr (w\<lparr>files := (files w)(file := Regular t)\<rparr>))"

definition load_data_try :: "('t \<Rightarrow> exn + stock) \<Rightarrow> string \<Rightarrow> 't world \<Rightarrow> exn + 't world" where
  "load_data_try loads file w =
     (case open_read w file of
        Inl e \<Rightarrow> Inl e
      | Inr t \<Rightarrow>
          (case loads t of
             Inl e \<Rightarrow> Inl e
           | Inr d \<Rightarrow> Inr (logging INFO (LoadedFrom file) (w\<lparr>stock_data := d\<rparr>))))"

definition load_data :: "('t \<Rightarrow> exn + stock) \<Rightarrow> string \<Rightarrow> 't world \<Rightarrow> exn + 't world" where
  "load_data loads file w =
     (case load_data_try loads file w of
        Inl FileNotFoundError \<Rightarrow> Inr ((logging WARNING (FileMissing file) w)\<lparr>stock_data := []\<rparr>)
      | Inl JSONDecodeError \<Rightarrow> Inr (logging ERROR (InvalidJSON file) w)
      | r \<Rightarrow> r)"

definition save_data_try :: "(stock \<Rightarrow> 't) \<Rightarrow> string \<Rightarrow> 't world \<Rightarrow> exn + 't world" where
  "save_data_try dumps file w =
     (case open_write w file (dumps (stock_data w)) of
        Inl e \<Rightarrow> Inl e
      | Inr w1 \<Rightarrow> Inr (logging INFO (SavedTo file) w1))"

definition save_data :: "(stock \<Rightarrow> 't) \<Rightarrow> string \<Rightarrow> 't world \<Rightarrow> exn + 't world" where
  "save_data dumps file w =
     (case save_data_try dumps file w of
        Inl e \<Rightarrow> if isinstance_OSError e then Inr (logging ERROR (ErrorSaving file e) w) else Inl e
      | r \<Rightarrow> r)"

subsection \<open>Vocabulary of the properties\<close>

text \<open>The state of a freshly imported module: an empty dictionary, nothing logged, no files.\<close>

definition fresh :: "'t world" where
  "fresh = \<lparr>stock_data = [], log_records = [], files = (\<lambda>p. Missing)\<rparr>"

text \<open>Every stored quantity is strictly positive.\<close>

definition positive_stock :: "stock \<Rightarrow> bool" where
  "positive_stock s = list_all (\<lambda>entry. 0 < snd entry) s"

text \<open>
  A sequence of calls \<open>add_item(item, qty)\<close> with string items and integer quantities,
  and the sum of the quantities passed for one item.
\<close>

fun add_all :: "timestamp \<Rightarrow> (string \<times> int) list \<Rightarrow> 't world \<Rightarrow> 't world" where
  "add_all now [] w = w"
| "add_all now ((item, qty) # calls) w =
     add_all now calls (fst (add_item now (VStr item) (VInt qty) None w))"

definition total_for :: "string \<Rightarrow> (string \<times> int) list \<Rightarrow> int" where
  "total_for item calls = sum_list (map snd (filter (\<lambda>call. fst call = item) calls))"

text \<open>A path on which the file operations fail.\<close>

fun is_faulty :: "'t node \<Rightarrow> bool" where
  "is_faulty (Faulty e) = True"
| "is_faulty n = False"


section \<open>Properties\<close>

subsection \<open>What \<open>remove_item\<close> returns\<close>

lemma remove_item_present:
  assumes "map_of (stock_data w) k = Some v" and "as_int qty = Some q"
  shows "remove_item (VStr k) qty w =
           Inr (if v - q \<le> 0
                then logging INFO (RemovedAll k) (w\<lparr>stock_data := AList.delete k (stock_data w)\<rparr>)
                else w\<lparr>stock_data := AList.update k (v - q) (stock_data w)\<rparr>)"
  using assms
  by (simp add: remove_item_def remove_item_try_def contains_def AList.delete_update_same)

lemma remove_item_absent:
  assumes "contains (stock_data w) item = Inr False"
  shows "remove_item item qty w = Inr (logging ERROR (NotFound item) w)"
  using assms by (simp add: remove_item_def remove_item_try_def)

lemma remove_item_key:
  assumes "as_int qty = Some q"
  shows "\<exists>w'. remove_item (VStr k) qty w = Inr w' \<and>
           map_of (stock_data w') k =
             (case map_of (stock_data w) k of
                None \<Rightarrow> None
              | Some v \<Rightarrow> if 0 < v - q then Some (v - q) else None) \<and>
           (\<forall>k'. k' \<noteq> k \<longrightarrow> map_of (stock_data w') k' = map_of (stock_data w) k')"
proof (cases "map_of (stock_data w) k")
  case None
  then have "contains (stock_data w) (VStr k) = Inr False"
    by (simp add: contains_def)
  with None show ?thesis
    by (simp add: remove_item_absent logging_def)
next
  case (Some v)
  with assms show ?thesis
    by (simp add: remove_item_present logging_def AList.delete_conv' AList.update_conv')
qed

text \<open>
  Claim C5. When \<open>item\<close> is stored with quantity \<open>previousQty\<close> and \<open>qty\<close> is an integer,
  \<open>remove_item(item, qty)\<close> returns. If \<open>previousQty - qty \<le> 0\<close> the key has been deleted
  and \<open>get_qty(item)\<close> afterwards is 0; otherwise the key holds \<open>previousQty - qty\<close> and
  \<open>get_qty(item)\<close> returns it.
\<close>

theorem remove_then_get_qty:
  assumes "map_of (stock_data w) k = Some previousQty" and "as_int qty = Some q"
  shows "\<exists>w'. remove_item (VStr k) qty w = Inr w' \<and>
           get_qty (VStr k) w' = Inr (if previousQty - q \<le> 0 then 0 else previousQty - q) \<and>
           map_of (stock_data w') k =
             (if previousQty - q \<le> 0 then None else Some (previousQty - q))"
  using assms
  by (simp add: remove_item_present get_qty_def logging_def AList.delete_conv' AList.update_conv')

theorem remove_then_get_qty_witness:
  "map_of [(''apple'', 10::int)] ''apple'' = Some 10 \<and> as_int (VInt 10) = Some 10 \<and>
   (\<exists>w'. remove_item (VStr ''apple'') (VInt 10)
            \<lparr>stock_data = [(''apple'', 10)], log_records = [], files = (\<lambda>p. Missing :: string node)\<rparr>
            = Inr w' \<and>
          get_qty (VStr ''apple'') w' = Inr 0 \<and>
          map_of (stock_data w') ''apple'' = None)"
  using remove_then_get_qty [of "\<lparr>stock_data = [(''apple'', 10)], log_records = [], files = (\<lambda>p. Missing :: string node)\<rparr>"
      "''apple''" 10 "VInt 10" 10]
  by simp

text \<open>
  Claim C7. When \<open>item\<close> is not in the dictionary, \<open>remove_item(item, qty)\<close> returns
  without raising, leaves the dictionary (and the files) as they were, and logs exactly
  one record, at level \<open>ERROR\<close>.
\<close>

theorem remove_absent_item:
  assumes "contains (stock_data w) item = Inr False"
  shows "\<exists>w'. remove_item item qty w = Inr w' \<and> stock_data w' = stock_data w \<and>
           files w' = files w \<and> log_records w' = log_records w @ [(ERROR, NotFound item)]"
  using assms by (simp add: remove_item_absent logging_def)

theorem remove_absent_item_witness:
  "contains [(''apple'', 7)] (VStr ''orange'') = Inr False \<and>
   (\<exists>w'. remove_item (VStr ''orange'') (VInt 1)
            \<lparr>stock_data = [(''apple'', 7)], log_records = [], files = (\<lambda>p. Missing :: string node)\<rparr>
            = Inr w' \<and>
          stock_data w' = [(''apple'', 7)] \<and>
          log_records w' = [(ERROR, NotFound (VStr ''orange''))])"
  using remove_absent_item [of "\<lparr>stock_data = [(''apple'', 7)], log_records = [], files = (\<lambda>p. Missing :: string node)\<rparr>"
      "VStr ''orange''" "VInt 1"]
  by (auto simp add: contains_def)

text \<open>
  Claim C10. For an integer \<open>qty\<close> of either sign, \<open>remove_item(item, qty)\<close> returns, and
  afterwards \<open>item\<close> is absent or mapped to a strictly positive value: the decremented
  value is kept only when it is greater than 0, and the key is deleted otherwise.
\<close>

theorem remove_item_leaves_positive_or_absent:
  assumes "as_int qty = Some q"
  shows "\<exists>w'. remove_item (VStr k) qty w = Inr w' \<and>
           map_of (stock_data w') k =
             (case map_of (stock_data w) k of
                None \<Rightarrow> None
              | Some v \<Rightarrow> if 0 < v - q then Some (v - q) else None) \<and>
           (case map_of (stock_data w') k of None \<Rightarrow> True | Some v' \<Rightarrow> 0 < v')"
proof (cases "map_of (stock_data w) k")
  case None
  then have "contains (stock_data w) (VStr k) = Inr False"
    by (simp add: contains_def)
  then show ?thesis
    using None by (simp add: remove_item_absent logging_def)
next
  case (Some v)
  then show ?thesis
    using assms
    by (simp add: remove_item_present logging_def AList.delete_conv' AList.update_conv')
qed

theorem remove_item_leaves_positive_or_absent_witness:
  "as_int (VInt 12) = Some 12 \<and>
   (\<exists>w'. remove_item (VStr ''apple'') (VInt 12)
            \<lparr>stock_data = [(''apple'', 10)], log_records = [], files = (\<lambda>p. Missing :: string node)\<rparr>
            = Inr w' \<and>
          map_of (stock_data w') ''apple'' = None)"
  using remove_item_leaves_positive_or_absent [of "VInt 12" 12 "''apple''"
      "\<lparr>stock_data = [(''apple'', 10)], log_records = [], files = (\<lambda>p. Missing :: string node)\<rparr>"]
  by auto

subsection \<open>The low-stock scan\<close>

lemma check_low_loop_eq:
  "as_int threshold = Some t \<Longrightarrow>
   check_low_loop threshold s result =
     Inr (result @ map fst (filter (\<lambda>entry. snd entry < t) s))"
  by (induction s arbitrary: result) (auto simp: int_lt_def)

lemma low_entries_iff:
  assumes "distinct (map fst s)"
  shows "item \<in> set (map fst (filter (\<lambda>entry. snd entry < t) s)) \<longleftrightarrow>
         (\<exists>quantity. map_of s item = Some quantity \<and> quantity < t)"
proof
  assume "item \<in> set (map fst (filter (\<lambda>entry. snd entry < t) s))"
  then obtain quantity where "(item, quantity) \<in> set s" and "quantity < t"
    by auto
  with assms show "\<exists>quantity. map_of s item = Some quantity \<and> quantity < t"
    by auto
next
  assume "\<exists>quantity. map_of s item = Some quantity \<and> quantity < t"
  then obtain quantity where "map_of s item = Some quantity" and lt: "quantity < t"
    by blast
  then have "(item, quantity) \<in> set s"
    by (simp add: map_of_SomeD)
  with lt show "item \<in> set (map fst (filter (\<lambda>entry. snd entry < t) s))"
    by force
qed

text \<open>
  Claim C9. For an integer \<open>threshold\<close>, \<open>check_low_items(threshold)\<close> returns the keys of
  the entries whose quantity is strictly less than \<open>threshold\<close>, in the iteration order
  of the dictionary; an item is in the result exactly when its stored quantity is
  strictly below the threshold, so a quantity equal to it is left out.
\<close>

theorem check_low_items_exact:
  assumes "as_int threshold = Some t" and "distinct (map fst (stock_data w))"
  shows "check_low_items threshold w =
           Inr (map fst (filter (\<lambda>entry. snd entry < t) (stock_data w))) \<and>
         (\<forall>item. item \<in> set (map fst (filter (\<lambda>entry. snd entry < t) (stock_data w))) \<longleftrightarrow>
            (\<exists>quantity. map_of (stock_data w) item = Some quantity \<and> quantity < t))"
  using check_low_loop_eq [OF assms(1), of "stock_data w" "[]"] low_entries_iff [OF assms(2), of _ t]
  by (simp add: check_low_items_def)

theorem check_low_items_exact_witness:
  "as_int (VInt 5) = Some 5 \<and>
   distinct (map fst [(''apple'', 3::int), (''banana'', 5), (''cherry'', 10)]) \<and>
   check_low_items (VInt 5)
     \<lparr>stock_data = [(''apple'', 3), (''banana'', 5), (''cherry'', 10)], log_records = [],
      files = (\<lambda>p. Missing :: string node)\<rparr> = Inr [''apple'']"
  using check_low_items_exact [of "VInt 5" 5
      "\<lparr>stock_data = [(''apple'', 3), (''banana'', 5), (''cherry'', 10)], log_records = [],
        files = (\<lambda>p. Missing :: string node)\<rparr>"]
  by simp

subsection \<open>Loading and saving\<close>

text \<open>
  Claim C2. When the file exists and its text does not parse (\<open>json.load\<close> raises
  \<open>JSONDecodeError\<close>), \<open>load_data\<close> returns, the dictionary is what it was before the
  call, and one record at level \<open>ERROR\<close> is logged.
\<close>

theorem load_malformed_keeps_mapping:
  assumes "files w file = Regular t" and "loads t = Inl JSONDecodeError"
  shows "\<exists>w'. load_data loads file w = Inr w' \<and> stock_data w' = stock_data w \<and>
           files w' = files w \<and> log_records w' = log_records w @ [(ERROR, InvalidJSON file)]"
  using assms by (simp add: load_data_def load_data_try_def open_read_def logging_def)

theorem load_malformed_keeps_mapping_witness:
  "(\<exists>w'. load_data (\<lambda>t. if t = ''{'' then Inl JSONDecodeError else Inr [])
            ''inventory.json''
            \<lparr>stock_data = [(''apple'', 7)], log_records = [],
             files = (\<lambda>p. Regular ''{'')\<rparr> = Inr w' \<and>
          stock_data w' = [(''apple'', 7)] \<and>
          log_records w' = [(ERROR, InvalidJSON ''inventory.json'')])"
  using load_malformed_keeps_mapping [of
      "\<lparr>stock_data = [(''apple'', 7)], log_records = [], files = (\<lambda>p. Regular ''{'')\<rparr>"
      "''inventory.json''" "''{''"
      "\<lambda>t. if t = ''{'' then Inl JSONDecodeError else Inr []"]
  by auto

text \<open>
  Claim C6. When the file operations on \<open>file\<close> succeed and the JSON text written for the
  dictionary parses back to it, \<open>save_data(file)\<close> returns with the dictionary untouched
  and the file holding the text of the dictionary, and a \<open>load_data(file)\<close> after it
  returns with the dictionary equal to what it was before the save. The dictionary
  comes from the file: the load gives the saved dictionary whatever the dictionary in
  memory has become between the two calls.
\<close>

theorem save_then_load_roundtrip:
  assumes "\<not> is_faulty (files w file)"
    and "loads (dumps (stock_data w)) = Inr (stock_data w)"
  shows "\<exists>w1. save_data dumps file w = Inr w1 \<and>
           stock_data w1 = stock_data w \<and>
           files w1 file = Regular (dumps (stock_data w)) \<and>
           (\<forall>s. \<exists>w2. load_data loads file (w1\<lparr>stock_data := s\<rparr>) = Inr w2 \<and>
                   stock_data w2 = stock_data w \<and>
                   log_records w2 = log_records w1 @ [(INFO, LoadedFrom file)])"
  using assms
  by (cases "files w file")
     (simp_all add: save_data_def save_data_try_def open_write_def load_data_def
        load_data_try_def open_read_def logging_def)

theorem save_then_load_roundtrip_witness:
  "\<exists>w1. save_data
          (\<lambda>d. if d = [(''apple'', 7), (''banana'', 5)] then ''apple=7;banana=5'' else [])
          ''inventory.json''
          \<lparr>stock_data = [(''apple'', 7), (''banana'', 5)], log_records = [],
           files = (\<lambda>p. Missing)\<rparr> = Inr w1 \<and>
        files w1 ''inventory.json'' = Regular ''apple=7;banana=5'' \<and>
        (\<exists>w2. load_data
                (\<lambda>t. if t = ''apple=7;banana=5'' then Inr [(''apple'', 7), (''banana'', 5)]
                     else Inl JSONDecodeError)
                ''inventory.json'' (w1\<lparr>stock_data := []\<rparr>) = Inr w2 \<and>
              stock_data w2 = [(''apple'', 7), (''banana'', 5)])"
proof -
  let ?dumps = "\<lambda>d. if d = [(''apple'', 7::int), (''banana'', 5)] then ''apple=7;banana=5'' else []"
  let ?loads = "\<lambda>t. if t = ''apple=7;banana=5'' then Inr [(''apple'', 7::int), (''banana'', 5)]
                     else Inl JSONDecodeError"
  let ?w = "\<lparr>stock_data = [(''apple'', 7), (''banana'', 5)], log_records = [],
             files = (\<lambda>p. Missing :: string node)\<rparr>"
  have "\<not> is_faulty (files ?w ''inventory.json'')"
    by simp
  moreover have "?loads (?dumps (stock_data ?w)) = Inr (stock_data ?w)"
    by simp
  ultimately obtain w1 where
    "save_data ?dumps ''inventory.json'' ?w = Inr w1"
    "files w1 ''inventory.json'' = Regular (?dumps (stock_data ?w))"
    "\<forall>s. \<exists>w2. load_data ?loads ''inventory.json'' (w1\<lparr>stock_data := s\<rparr>) = Inr w2 \<and>
            stock_data w2 = stock_data ?w \<and>
            log_records w2 = log_records w1 @ [(INFO, LoadedFrom ''inventory.json'')]"
    using save_then_load_roundtrip [of ?w "''inventory.json''" ?loads ?dumps] by blast
  then show ?thesis
    by (intro exI [of _ w1]) (simp, metis)
qed

text \<open>
  Claim C3 says that no I/O failure inside \<open>load_data\<close> or \<open>save_data\<close> reaches the caller.
  On a path that cannot be opened for lack of permission, \<open>save_data\<close> catches the
  \<open>PermissionError\<close> through \<open>except IOError\<close> and logs it, whereas \<open>load_data\<close>, which
  handles only \<open>FileNotFoundError\<close> and \<open>JSONDecodeError\<close>, lets it propagate.
\<close>

theorem load_data_permission_error_propagates:
  "load_data Inr ''inventory.json''
     \<lparr>stock_data = [(''apple'', 7)], log_records = [],
      files = (\<lambda>p. Faulty PermissionError)\<rparr> = Inl PermissionError \<and>
   save_data (\<lambda>d. d) ''inventory.json''
     \<lparr>stock_data = [(''apple'', 7)], log_records = [],
      files = (\<lambda>p. Faulty PermissionError)\<rparr> =
     Inr \<lparr>stock_data = [(''apple'', 7)],
          log_records = [(ERROR, ErrorSaving ''inventory.json'' PermissionError)],
          files = (\<lambda>p. Faulty PermissionError)\<rparr>"
  by (simp add: load_data_def load_data_try_def open_read_def save_data_def save_data_try_def
      open_write_def logging_def)

lemma save_data_stock:
  "save_data dumps file w = Inr w' \<Longrightarrow> stock_data w' = stock_data w"
  by (cases "files w file")
     (auto simp: save_data_def save_data_try_def open_write_def logging_def split: if_splits)

lemma load_data_stock:
  assumes "load_data loads file w = Inr w'"
  shows "stock_data w' =
           (case files w file of
              Missing \<Rightarrow> []
            | Regular t \<Rightarrow>
                (case loads t of
                   Inr d \<Rightarrow> d
                 | Inl e \<Rightarrow> (if e = FileNotFoundError then [] else stock_data w))
            | Faulty e \<Rightarrow> (if e = FileNotFoundError then [] else stock_data w))"
proof (cases "files w file")
  case Missing
  with assms show ?thesis
    by (auto simp: load_data_def load_data_try_def open_read_def logging_def)
next
  case (Regular t)
  with assms show ?thesis
    by (cases "loads t")
       (auto simp: load_data_def load_data_try_def open_read_def logging_def split: exn.splits)
next
  case (Faulty e)
  with assms show ?thesis
    by (cases e) (auto simp: load_data_def load_data_try_def open_read_def logging_def)
qed

subsection \<open>Positive quantities\<close>

lemma positive_stock_lookup:
  "positive_stock s \<Longrightarrow> map_of s k = Some v \<Longrightarrow> 0 < v"
  by (induction s) (auto simp: positive_stock_def split: if_splits)

lemma positive_stock_update:
  "positive_stock s \<Longrightarrow> 0 < v \<Longrightarrow> positive_stock (AList.update k v s)"
  by (induction s) (auto simp: positive_stock_def)

lemma positive_stock_delete:
  "positive_stock s \<Longrightarrow> positive_stock (AList.delete k s)"
  by (induction s) (auto simp: positive_stock_def)

lemma add_item_stock:
  "stock_data (fst (add_item now item qty logs w)) =
     (case (item, as_int qty) of
        (VStr k, Some q) \<Rightarrow>
          if k = [] then stock_data w
          else AList.update k ((case map_of (stock_data w) k of None \<Rightarrow> 0 | Some v \<Rightarrow> v) + q)
                 (stock_data w)
      | _ \<Rightarrow> stock_data w)"
  by (cases item; cases "as_int qty")
     (simp_all add: add_item_def Let_def logging_def isinstance_int_def)

lemma add_item_positive:
  assumes "positive_stock (stock_data w)" and "as_int qty = Some q" and "0 < q"
  shows "positive_stock (stock_data (fst (add_item now item qty logs w)))"
proof (cases item)
  case (VStr k)
  show ?thesis
  proof (cases "map_of (stock_data w) k")
    case None
    with VStr assms show ?thesis
      by (simp add: add_item_stock positive_stock_update)
  next
    case (Some v)
    with assms(1) have "0 < v" by (rule positive_stock_lookup)
    with VStr Some assms show ?thesis
      by (simp add: add_item_stock positive_stock_update)
  qed
qed (use assms in \<open>simp_all add: add_item_stock\<close>)

lemma remove_item_positive:
  assumes "positive_stock (stock_data w)" and "remove_item item qty w = Inr w'"
  shows "positive_stock (stock_data w')"
proof (cases "contains (stock_data w) item")
  case (Inl e)
  with assms(2) show ?thesis
    by (cases e) (simp_all add: remove_item_def remove_item_try_def contains_def split: if_splits pyval.splits)
next
  case (Inr present)
  show ?thesis
  proof (cases present)
    case False
    with Inr assms show ?thesis
      by (auto simp: remove_item_absent logging_def)
  next
    case True
    with Inr obtain k v where k: "item = VStr k" and v: "map_of (stock_data w) k = Some v"
      by (auto simp: contains_def split: if_splits pyval.splits)
    show ?thesis
    proof (cases "as_int qty")
      case None
      with k v True Inr assms(2) show ?thesis
        by (simp add: remove_item_def remove_item_try_def)
    next
      case (Some q)
      with k v assms show ?thesis
        by (auto simp: remove_item_present logging_def positive_stock_update
            positive_stock_delete split: if_splits)
    qed
  qed
qed

text \<open>
  Claim C1 says that every stored quantity is strictly positive in every reachable
  state. \<open>add_item\<close> accepts an integer of any sign and stores the sum as it is: on the
  fresh ledger \<open>add_item("apple", -3)\<close> stores \<open>-3\<close>.
\<close>

theorem positive_stock_counterexample:
  "\<not> positive_stock
       (stock_data (fst (add_item 0 (VStr ''apple'') (VInt (- 3)) None (fresh :: string world))))"
  by (simp add: add_item_stock fresh_def positive_stock_def)

text \<open>
  Claim C1, amended. From a state whose stored quantities are all strictly positive:
  \<open>add_item\<close> with a positive integer quantity keeps them so; \<open>remove_item\<close> keeps them so
  whenever it returns, whatever its arguments, and for a string item and an integer
  quantity it returns, stores the decremented quantity when that is greater than 0,
  deletes the key when it has reached 0 or below, and touches no other key;
  \<open>save_data\<close> does not change the dictionary; \<open>load_data\<close> keeps the quantities positive
  provided the quantities parsed from the file are all strictly positive. \<open>get_qty\<close> and
  \<open>check_low_items\<close> only read the dictionary.
\<close>

theorem positive_stock_preserved:
  assumes "positive_stock (stock_data w)"
  shows "(as_int qty = Some q \<and> 0 < q \<longrightarrow>
            positive_stock (stock_data (fst (add_item now item qty logs w)))) \<and>
         (remove_item item' qty' w = Inr w1 \<longrightarrow> positive_stock (stock_data w1)) \<and>
         (as_int qty' = Some q' \<longrightarrow>
            (\<exists>w'. remove_item (VStr k) qty' w = Inr w' \<and>
               map_of (stock_data w') k =
                 (case map_of (stock_data w) k of
                    None \<Rightarrow> None
                  | Some v \<Rightarrow> if 0 < v - q' then Some (v - q') else None) \<and>
               (\<forall>k'. k' \<noteq> k \<longrightarrow> map_of (stock_data w') k' = map_of (stock_data w) k'))) \<and>
         (save_data dumps file w = Inr w2 \<longrightarrow> stock_data w2 = stock_data w) \<and>
         ((case files w file of
             Regular t \<Rightarrow> (case loads t of Inr d \<Rightarrow> positive_stock d | Inl e \<Rightarrow> True)
           | _ \<Rightarrow> True) \<longrightarrow>
          load_data loads file w = Inr w3 \<longrightarrow> positive_stock (stock_data w3))"
proof (intro conjI impI)
  assume "as_int qty = Some q \<and> 0 < q"
  with assms show "positive_stock (stock_data (fst (add_item now item qty logs w)))"
    by (simp add: add_item_positive)
next
  assume "remove_item item' qty' w = Inr w1"
  with assms show "positive_stock (stock_data w1)"
    by (rule remove_item_positive)
next
  assume "as_int qty' = Some q'"
  then show "\<exists>w'. remove_item (VStr k) qty' w = Inr w' \<and>
               map_of (stock_data w') k =
                 (case map_of (stock_data w) k of
                    None \<Rightarrow> None
                  | Some v \<Rightarrow> if 0 < v - q' then Some (v - q') else None) \<and>
               (\<forall>k'. k' \<noteq> k \<longrightarrow> map_of (stock_data w') k' = map_of (stock_data w) k')"
    by (rule remove_item_key)
next
  assume "save_data dumps file w = Inr w2"
  then show "stock_data w2 = stock_data w"
    by (rule save_data_stock)
next
  assume ok: "case files w file of
                Regular t \<Rightarrow> (case loads t of Inr d \<Rightarrow> positive_stock d | Inl e \<Rightarrow> True)
              | _ \<Rightarrow> True"
    and "load_data loads file w = Inr w3"
  then have "stock_data w3 =
           (case files w file of
              Missing \<Rightarrow> []
            | Regular t \<Rightarrow>
                (case loads t of
                   Inr d \<Rightarrow> d
                 | Inl e \<Rightarrow> (if e = FileNotFoundError then [] else stock_data w))
            | Faulty e \<Rightarrow> (if e = FileNotFoundError then [] else stock_data w))"
    by (simp add: load_data_stock)
  with ok assms show "positive_stock (stock_data w3)"
    by (auto simp: positive_stock_def split: node.splits sum.splits if_splits)
qed

theorem positive_stock_preserved_witness:
  "positive_stock [(''apple'', 10), (''banana'', 4)] \<and>
   as_int (VInt 5) = Some 5 \<and> (0::int) < 5 \<and>
   positive_stock (stock_data (fst (add_item 0 (VStr ''banana'') (VInt 5) None
     \<lparr>stock_data = [(''apple'', 10), (''banana'', 4)], log_records = [],
      files = (\<lambda>p. Regular [(''pear'', 2::int)])\<rparr>))) \<and>
   as_int (VInt 10) = Some 10 \<and>
   remove_item (VStr ''apple'') (VInt 10)
     \<lparr>stock_data = [(''apple'', 10), (''banana'', 4)], log_records = [],
      files = (\<lambda>p. Regular [(''pear'', 2::int)])\<rparr> =
     Inr \<lparr>stock_data = [(''banana'', 4)], log_records = [(INFO, RemovedAll ''apple'')],
          files = (\<lambda>p. Regular [(''pear'', 2::int)])\<rparr> \<and>
   positive_stock [(''banana'', 4)] \<and>
   map_of [(''banana'', 4::int)] ''apple'' = None \<and>
   load_data Inr ''inventory.json''
     \<lparr>stock_data = [(''apple'', 10), (''banana'', 4)], log_records = [],
      files = (\<lambda>p. Regular [(''pear'', 2::int)])\<rparr> =
     Inr \<lparr>stock_data = [(''pear'', 2)],
          log_records = [(INFO, LoadedFrom ''inventory.json'')],
          files = (\<lambda>p. Regular [(''pear'', 2::int)])\<rparr> \<and>
   positive_stock [(''pear'', 2)]"
  using positive_stock_preserved [of
      "\<lparr>stock_data = [(''apple'', 10), (''banana'', 4)], log_records = [],
        files = (\<lambda>p. Regular [(''pear'', 2::int)])\<rparr>"
      "VInt 5" 5 0 "VStr ''banana''" None
      "VStr ''apple''" "VInt 10"
      "\<lparr>stock_data = [(''banana'', 4)], log_records = [(INFO, RemovedAll ''apple'')],
        files = (\<lambda>p. Regular [(''pear'', 2::int)])\<rparr>"
      10 "''apple''"
      "\<lambda>d. d" "''inventory.json''"
      "\<lparr>stock_data = [(''apple'', 10), (''banana'', 4)],
        log_records = [(INFO, SavedTo ''inventory.json'')],
        files = (\<lambda>p. Regular [(''pear'', 2::int)])
          (''inventory.json'' := Regular [(''apple'', 10), (''banana'', 4)])\<rparr>"
      Inr
      "\<lparr>stock_data = [(''pear'', 2)],
        log_records = [(INFO, LoadedFrom ''inventory.json'')],
        files = (\<lambda>p. Regular [(''pear'', 2::int)])\<rparr>"]
  by (simp add: positive_stock_def remove_item_def remove_item_try_def contains_def
      load_data_def load_data_try_def open_read_def logging_def)

subsection \<open>Distinct keys\<close>

text \<open>
  A dictionary has each key once. The two functions that write \<open>stock_data\<close> keep the
  keys of the association list distinct, which the low-stock scan relies on.
\<close>

lemma add_item_distinct:
  "distinct (map fst (stock_data w)) \<Longrightarrow>
   distinct (map fst (stock_data (fst (add_item now item qty logs w))))"
  by (cases item; cases "as_int qty") (simp_all add: add_item_stock AList.distinct_update)

lemma remove_item_distinct:
  assumes "distinct (map fst (stock_data w))" and "remove_item item qty w = Inr w'"
  shows "distinct (map fst (stock_data w'))"
proof (cases "contains (stock_data w) item")
  case (Inl e)
  with assms(2) show ?thesis
    by (simp add: remove_item_def remove_item_try_def contains_def split: if_splits pyval.splits)
next
  case (Inr present)
  show ?thesis
  proof (cases present)
    case False
    with Inr assms show ?thesis
      by (auto simp: remove_item_absent logging_def)
  next
    case True
    with Inr obtain k v where k: "item = VStr k" and v: "map_of (stock_data w) k = Some v"
      by (auto simp: contains_def split: if_splits pyval.splits)
    show ?thesis
    proof (cases "as_int qty")
      case None
      with k v True Inr assms(2) show ?thesis
        by (simp add: remove_item_def remove_item_try_def)
    next
      case (Some q)
      with k v assms show ?thesis
        by (auto simp: remove_item_present logging_def AList.distinct_update
            AList.distinct_delete split: if_splits)
    qed
  qed
qed

subsection \<open>Sequences of additions\<close>

lemma get_qty_add_all:
  "item \<noteq> [] \<Longrightarrow>
   get_qty (VStr item) (add_all now calls w) =
     Inr ((case map_of (stock_data w) item of None \<Rightarrow> 0 | Some v \<Rightarrow> v) + total_for item calls)"
proof (induction calls arbitrary: w)
  case Nil
  then show ?case by (simp add: get_qty_def total_for_def)
next
  case (Cons call calls)
  obtain k q where call: "call = (k, q)" by (cases call)
  show ?case
    using Cons.prems
    by (simp add: call Cons.IH add_item_stock total_for_def AList.update_conv'
        split: option.splits)
qed

text \<open>
  Claim C4 says that after any sequence of \<open>add_item\<close> calls with positive quantities on a
  fresh ledger, \<open>get_qty(item)\<close> is the sum of the quantities passed for \<open>item\<close>. The empty
  string is an item for which this fails: \<open>add_item("", 5)\<close> returns at \<open>if not item\<close>
  without storing anything, so \<open>get_qty("")\<close> is 0 and not 5.
\<close>

theorem add_sequence_total_counterexample:
  "get_qty (VStr []) (add_all 0 [([], 5)] (fresh :: string world)) \<noteq>
     Inr (total_for [] [([], 5)])"
  by (simp add: get_qty_def add_item_stock fresh_def total_for_def)

text \<open>
  Claim C4, amended. After any sequence of \<open>add_item\<close> calls with positive integer
  quantities on a ledger whose dictionary is empty, \<open>get_qty(item)\<close> for a non-empty
  \<open>item\<close> is the sum of the quantities passed for that item.
\<close>

theorem add_sequence_total:
  assumes "stock_data w = []" and "list_all (\<lambda>call. 0 < snd call) calls" and "item \<noteq> []"
  shows "get_qty (VStr item) (add_all now calls w) = Inr (total_for item calls)"
  using assms(1) get_qty_add_all [OF assms(3), of now calls w] by simp

theorem add_sequence_total_witness:
  "stock_data (fresh :: string world) = [] \<and>
   list_all (\<lambda>call. 0 < snd call) [(''apple'', 10::int), (''banana'', 5), (''apple'', 4)] \<and>
   ''apple'' \<noteq> [] \<and>
   get_qty (VStr ''apple'')
     (add_all 0 [(''apple'', 10), (''banana'', 5), (''apple'', 4)] (fresh :: string world)) = Inr 14"
  using add_sequence_total [of "fresh :: string world"
      "[(''apple'', 10), (''banana'', 5), (''apple'', 4)]" "''apple''" 0]
  by (simp add: fresh_def total_for_def)

subsection \<open>Type validation in \<open>add_item\<close>\<close>

text \<open>
  Claim C8 says that \<open>add_item\<close> with a non-string item or a non-integer quantity logs an
  error. The test \<open>if not item: return\<close> comes before the type checks, so a falsy
  non-string item such as \<open>None\<close> makes the call return without logging anything.
\<close>

theorem add_item_wrong_type_counterexample:
  "\<not> isinstance_str VNone \<and>
   log_records (fst (add_item 0 VNone (VInt 1) None (fresh :: string world))) = []"
  by (simp add: add_item_def fresh_def)

text \<open>
  Claim C8, amended. \<open>add_item\<close> with a non-string item or a non-integer quantity leaves
  the dictionary, the files and the caller's \<open>logs\<close> list unchanged and raises nothing
  (no path of \<open>add_item\<close> raises). When the item is truthy it logs exactly one record,
  at level \<open>ERROR\<close>; when the item is falsy it logs nothing.
\<close>

theorem add_item_wrong_type:
  assumes "\<not> isinstance_str item \<or> \<not> isinstance_int qty"
  shows "stock_data (fst (add_item now item qty logs w)) = stock_data w \<and>
         files (fst (add_item now item qty logs w)) = files w \<and>
         snd (add_item now item qty logs w) = (case logs of None \<Rightarrow> [] | Some l \<Rightarrow> l) \<and>
         (if truthy item
          then \<exists>m. log_records (fst (add_item now item qty logs w)) = log_records w @ [(ERROR, m)]
          else log_records (fst (add_item now item qty logs w)) = log_records w)"
  using assms by (auto simp: add_item_def Let_def logging_def)

theorem add_item_wrong_type_witness:
  "\<not> isinstance_str (VInt 123) \<and>
   stock_data (fst (add_item 0 (VInt 123) (VStr ''ten'') None
     \<lparr>stock_data = [(''apple'', 10)], log_records = [], files = (\<lambda>p. Missing :: string node)\<rparr>))
     = [(''apple'', 10)] \<and>
   log_records (fst (add_item 0 (VInt 123) (VStr ''ten'') None
     \<lparr>stock_data = [(''apple'', 10)], log_records = [], files = (\<lambda>p. Missing :: string node)\<rparr>))
     = [(ERROR, InvalidItemType IntT)]"
  using add_item_wrong_type [of "VInt 123" "VStr ''ten''" 0 None
      "\<lparr>stock_data = [(''apple'', 10)], log_records = [], files = (\<lambda>p. Missing :: string node)\<rparr>"]
  by (auto simp: add_item_def logging_def)

end
